theory Spec2Isabelle
  imports Main
begin

section \<open>Strings and the platform's string primitives\<close>

text \<open>
  A JavaScript string is represented by the bytes of its UTF-8 form (\<^typ>\<open>string\<close>, a list
  of 8-bit characters). \<open>encodeURIComponent\<close> works on exactly these bytes: it keeps the
  unreserved ASCII characters and writes every other byte as \<open>%XX\<close> with upper-case
  hexadecimal digits. Strings with an unpaired surrogate, which have no UTF-8 form and on
  which \<open>encodeURIComponent\<close> throws, are outside this representation.

  A JavaScript number is represented by an \<^typ>\<open>int\<close>; \<open>String(n)\<close> is then its decimal
  numeral. Numbers that \<open>String\<close> prints in another form (fractions, exponents, NaN,
  infinities) are outside this representation.
\<close>

fun nat_to_string :: "nat \<Rightarrow> string" where
  "nat_to_string n =
     (if n < 10 then [''0123456789'' ! n]
      else nat_to_string (n div 10) @ [''0123456789'' ! (n mod 10)])"

declare nat_to_string.simps [simp del]

definition number_to_string :: "int \<Rightarrow> string" where
  "number_to_string i =
     (if i < 0 then CHR ''-'' # nat_to_string (nat (- i)) else nat_to_string (nat i))"

text \<open>\<open>Array.prototype.join\<close> on an array of strings.\<close>

fun array_join :: "string \<Rightarrow> string list \<Rightarrow> string" where
  "array_join sep [] = []"
| "array_join sep [x] = x"
| "array_join sep (x # y # ys) = x @ sep @ array_join sep (y # ys)"

definition uri_unreserved :: "char \<Rightarrow> bool" where
  "uri_unreserved c \<longleftrightarrow>
     c \<in> set ''ABCDEFGHIJKLMNOPQRSTUVWXYZabcdefghijklmnopqrstuvwxyz0123456789-_.!~*()''
     \<or> c = CHR 0x27"

definition hex_digit :: "nat \<Rightarrow> char" where
  "hex_digit d = ''0123456789ABCDEF'' ! d"

definition encode_byte :: "char \<Rightarrow> string" where
  "encode_byte c =
     (if uri_unreserved c then [c]
      else [CHR ''%'', hex_digit (of_char c div 16), hex_digit (of_char c mod 16)])"

definition encodeURIComponent :: "string \<Rightarrow> string" where
  "encodeURIComponent s = concat (map encode_byte s)"

section \<open>Objects and query parameters\<close>

text \<open>
  A JavaScript object with string values of type \<open>'v\<close> is the list of its own enumerable
  properties in the order \<open>Object.keys\<close> enumerates them; a property name occurs once.
  Property names are taken not to be array indices (\<open>"0"\<close>, \<open>"17"\<close>, ...), which JavaScript
  enumerates first and in numeric order whatever their insertion order; for every other
  name the enumeration order is the insertion order.
\<close>

type_synonym 'v object = "(string \<times> 'v) list"

definition Object_keys :: "'v object \<Rightarrow> string list" where
  "Object_keys obj = map fst obj"

text \<open>Reading \<open>obj[k]\<close>: \<open>None\<close> is JavaScript's \<open>undefined\<close> for a missing property.\<close>

definition get_prop :: "'v object \<Rightarrow> string \<Rightarrow> 'v option" where
  "get_prop obj k = map_of obj k"

text \<open>
  \<open>{ ...acc, [k]: v }\<close>: an existing property keeps its place and takes the new value, a new
  property goes last.
\<close>

fun assign :: "'v object \<Rightarrow> string \<Rightarrow> 'v \<Rightarrow> 'v object" where
  "assign [] k v = [(k, v)]"
| "assign ((k', v') # rest) k v =
     (if k' = k then (k, v) # rest else (k', v') # assign rest k v)"

text \<open>\<open>{ ...a, ...b }\<close>: the properties of \<open>b\<close> are copied over those of \<open>a\<close>, key by key.\<close>

definition spread :: "'v object \<Rightarrow> 'v object \<Rightarrow> 'v object" where
  "spread a b =
     fold (\<lambda>k acc. case get_prop b k of None \<Rightarrow> acc | Some v \<Rightarrow> assign acc k v)
       (Object_keys b) a"

datatype scalar = Num int | Str string

text \<open>
  The values of \<open>HttpParams\<close>:
  \<open>number | string | Array<number | string> | undefined | null\<close>.
\<close>

datatype param = Scalar scalar | Arr "scalar list" | Undefined_param | Null

type_synonym HttpParams = "param object"

fun String_js :: "scalar \<Rightarrow> string" where
  "String_js (Num n) = number_to_string n"
| "String_js (Str s) = s"

text \<open>
  The body of the \<open>reduce\<close> callback of \<open>urlParams\<close>. \<open>params[k]\<close> of a key that
  \<open>Object.keys\<close> did not list cannot occur; it would read \<open>undefined\<close> and be skipped.
\<close>

definition concat_step :: "HttpParams \<Rightarrow> string \<Rightarrow> string object \<Rightarrow> string object" where
  "concat_step params k acc =
     (case get_prop params k of
        None \<Rightarrow> acc
      | Some Null \<Rightarrow> acc
      | Some Undefined_param \<Rightarrow> acc
      | Some (Scalar (Str [])) \<Rightarrow> acc
      | Some (Scalar s) \<Rightarrow> assign acc k (array_join '','' [String_js s])
      | Some (Arr ps) \<Rightarrow> assign acc k (array_join '','' (map String_js ps)))"

definition concatedParams :: "HttpParams \<Rightarrow> string object" where
  "concatedParams params = fold (concat_step params) (Object_keys params) []"

definition encode_pair :: "string object \<Rightarrow> string \<Rightarrow> string" where
  "encode_pair obj k =
     (case get_prop obj k of
        Some v \<Rightarrow> encodeURIComponent k @ ''='' @ encodeURIComponent v
      | None \<Rightarrow> encodeURIComponent k @ ''='' @ encodeURIComponent ''undefined'')"

definition urlParams :: "HttpParams \<Rightarrow> string" where
  "urlParams params =
     (let concated = concatedParams params
      in array_join ''&'' (map (encode_pair concated) (Object_keys concated)))"

section \<open>The client\<close>

text \<open>
  Values the library only passes along (the structured payload of a JSON body, a
  \<open>Blob\<close>, a decoded response body, an error value, a transport option) are opaque:
  the type variable \<open>'a\<close>.
\<close>

datatype 'a ApiRequestFormBodyValue =
  FormString string | FormNumber int | FormFile 'a string

type_synonym 'a ApiRequestFormBody = "'a ApiRequestFormBodyValue object"

record 'a ApiRequestConfig =
  cfg_params :: "HttpParams option"
  body :: "'a option"
  formBody :: "'a ApiRequestFormBody option"
  form :: "bool option"

text \<open>An entry of a \<open>FormData\<close>: a text value, or a file with its file name.\<close>

datatype 'a form_entry = TextEntry string | FileEntry 'a string

type_synonym 'a FormData = "(string \<times> 'a form_entry) list"

text \<open>
  \<open>RequestInit\<close> is an object whose properties are read by the transport only: a map from
  property name to value. \<open>HeadersInit\<close> is a map from header name to header value.
\<close>

type_synonym HeadersInit = "string \<rightharpoonup> string"

datatype 'a init_value =
  Text string | Headers HeadersInit | Form "'a FormData" | Opaque_init 'a

type_synonym 'a RequestInit = "string \<rightharpoonup> 'a init_value"

record 'a RequestData =
  path :: string
  params :: "HttpParams option"
  options :: "'a RequestInit"

type_synonym 'a Middleware = "'a RequestData \<Rightarrow> 'a RequestData"

text \<open>A settled promise.\<close>

datatype ('v, 'e) promise = Resolved 'v | Rejected 'e

text \<open>
  A \<open>Response\<close>, as far as the client reads it: the status code and what
  \<open>response.json()\<close> settles with (the decoded body, or the decoding error).
\<close>

record 'a Response =
  status :: int
  json :: "('a, 'a) promise"

text \<open>What the promise returned by \<open>request\<close> can settle with.\<close>

datatype 'a js_value = Undefined | Value 'a | Raw "'a Response"

type_synonym 'a outcome = "('a js_value, 'a js_value) promise"

text \<open>
  \<open>ErrorHandler = (res: Response) => Promise<never>\<close>. The constructor documents that
  the handler must return a rejected promise. The type below is the type of what
  \<open>request\<close> returns, since \<open>request\<close> returns the handler's promise as it is; a property
  that rests on the handler's contract states it as a hypothesis.
\<close>

type_synonym 'a ErrorHandler = "'a Response \<Rightarrow> 'a outcome"

record 'a ApiConfig =
  errorHandler :: "'a ErrorHandler option"
  cfg_options :: "'a RequestInit option"

text \<open>
  The two primitives of the platform that \<open>request\<close> calls: \<open>JSON.stringify\<close> on a payload
  (payloads are JSON-serializable, so it returns a text) and \<open>fetch\<close>, which settles with a
  response or fails with the transport's error.
\<close>

record 'a platform =
  JSON_stringify :: "'a \<Rightarrow> string"
  fetch :: "string \<Rightarrow> 'a RequestInit \<Rightarrow> ('a Response, 'a) promise"

record 'a DashAPI =
  baseUrl :: string
  config :: "'a ApiConfig option"
  middlewares :: "'a Middleware list"

text \<open>\<open>String.prototype.endsWith\<close>, and \<open>s.slice(0, -1)\<close>, the string without its last character.\<close>

definition endsWith :: "string \<Rightarrow> string \<Rightarrow> bool" where
  "endsWith s t \<longleftrightarrow> length t \<le> length s \<and> drop (length s - length t) s = t"

definition slice_0_minus_1 :: "string \<Rightarrow> string" where
  "slice_0_minus_1 s = take (length s - 1) s"

text \<open>\<open>baseUrl.endsWith('/') ? baseUrl.slice(0, -1) : baseUrl\<close>\<close>

definition trim_trailing_slash :: "string \<Rightarrow> string" where
  "trim_trailing_slash url = (if endsWith url ''/'' then slice_0_minus_1 url else url)"

text \<open>The constructor; \<open>None\<close> for the base URL takes the default \<open>'/api'\<close>.\<close>

definition new_DashAPI :: "string option \<Rightarrow> 'a ApiConfig option \<Rightarrow> 'a DashAPI" where
  "new_DashAPI url cfg =
     \<lparr> baseUrl = trim_trailing_slash (case url of None \<Rightarrow> ''/api'' | Some u \<Rightarrow> u),
       config = cfg,
       middlewares = [] \<rparr>"

definition getUrl :: "'a DashAPI \<Rightarrow> string \<Rightarrow> HttpParams option \<Rightarrow> string" where
  "getUrl api p ps =
     (let qs = (case ps of Some q \<Rightarrow> Some (urlParams q) | None \<Rightarrow> None)
      in baseUrl api @ ''/'' @ p @
         (case qs of
            None \<Rightarrow> []
          | Some q \<Rightarrow> if q \<noteq> [] then ''?'' @ q else []))"

definition addMiddleware :: "'a DashAPI \<Rightarrow> 'a Middleware \<Rightarrow> 'a DashAPI" where
  "addMiddleware api middleware = api\<lparr>middlewares := middlewares api @ [middleware]\<rparr>"

text \<open>\<open>this.config?.options\<close> and \<open>this.config?.errorHandler\<close>\<close>

definition config_options :: "'a DashAPI \<Rightarrow> 'a RequestInit" where
  "config_options api =
     (case config api of
        None \<Rightarrow> Map.empty
      | Some c \<Rightarrow> (case cfg_options c of None \<Rightarrow> Map.empty | Some opts \<Rightarrow> opts))"

definition config_errorHandler :: "'a DashAPI \<Rightarrow> 'a ErrorHandler option" where
  "config_errorHandler api =
     (case config api of None \<Rightarrow> None | Some c \<Rightarrow> errorHandler c)"

text \<open>
  The \<open>forEach\<close> over \<open>Object.keys(formBody)\<close>: a \<open>{file, filename}\<close> value is appended as
  a file, every other value as its string form.
\<close>

definition append_field ::
  "'a ApiRequestFormBody \<Rightarrow> string \<Rightarrow> 'a FormData \<Rightarrow> 'a FormData" where
  "append_field fb key formData =
     (case get_prop fb key of
        Some (FormFile blob filename) \<Rightarrow> formData @ [(key, FileEntry blob filename)]
      | Some (FormString s) \<Rightarrow> formData @ [(key, TextEntry s)]
      | Some (FormNumber n) \<Rightarrow> formData @ [(key, TextEntry (number_to_string n))]
      | None \<Rightarrow> formData @ [(key, TextEntry ''undefined'')])"

definition build_FormData :: "'a ApiRequestFormBody \<Rightarrow> 'a FormData" where
  "build_FormData fb = fold (append_field fb) (Object_keys fb) []"

text \<open>\<open>config?.params\<close>, \<open>config?.body\<close> and \<open>config?.formBody\<close>\<close>

definition config_params :: "'a ApiRequestConfig option \<Rightarrow> HttpParams option" where
  "config_params cfg = (case cfg of None \<Rightarrow> None | Some c \<Rightarrow> cfg_params c)"

definition config_body :: "'a ApiRequestConfig option \<Rightarrow> 'a option" where
  "config_body cfg = (case cfg of None \<Rightarrow> None | Some c \<Rightarrow> body c)"

definition config_formBody :: "'a ApiRequestConfig option \<Rightarrow> 'a ApiRequestFormBody option" where
  "config_formBody cfg = (case cfg of None \<Rightarrow> None | Some c \<Rightarrow> formBody c)"

text \<open>
  The first part of \<open>request\<close>: the headers and the options, up to
  \<open>options['headers'] = headers\<close>. A payload and a form body are objects, so each is
  truthy whenever it is present.
\<close>

definition request_headers :: "'a ApiRequestConfig option \<Rightarrow> HeadersInit" where
  "request_headers cfg =
     (case config_body cfg of
        Some b \<Rightarrow> [''Content-Type'' \<mapsto> ''application/json'']
      | None \<Rightarrow> Map.empty)"

definition request_options ::
  "'a platform \<Rightarrow> 'a DashAPI \<Rightarrow> string \<Rightarrow> 'a ApiRequestConfig option \<Rightarrow> 'a RequestInit" where
  "request_options pf api method cfg =
     (let opts = (config_options api)(''method'' \<mapsto> Text method);
          opts' =
            (case config_body cfg of
               Some b \<Rightarrow> opts(''body'' \<mapsto> Text (JSON_stringify pf b))
             | None \<Rightarrow>
                 (case config_formBody cfg of
                    Some fb \<Rightarrow> opts(''body'' \<mapsto> Form (build_FormData fb))
                  | None \<Rightarrow> opts))
      in opts'(''headers'' \<mapsto> Headers (request_headers cfg)))"

definition initial_requestData ::
  "'a platform \<Rightarrow> 'a DashAPI \<Rightarrow> string \<Rightarrow> string \<Rightarrow> 'a ApiRequestConfig option
     \<Rightarrow> 'a RequestData" where
  "initial_requestData pf api p method cfg =
     \<lparr> path = p,
       params = config_params cfg,
       options = request_options pf api method cfg \<rparr>"

text \<open>\<open>this.middlewares.forEach((middleware) => { requestData = middleware(requestData) })\<close>\<close>

definition apply_middlewares :: "'a Middleware list \<Rightarrow> 'a RequestData \<Rightarrow> 'a RequestData" where
  "apply_middlewares ms requestData = fold (\<lambda>middleware rd. middleware rd) ms requestData"

definition final_requestData ::
  "'a platform \<Rightarrow> 'a DashAPI \<Rightarrow> string \<Rightarrow> string \<Rightarrow> 'a ApiRequestConfig option
     \<Rightarrow> 'a RequestData" where
  "final_requestData pf api p method cfg =
     apply_middlewares (middlewares api) (initial_requestData pf api p method cfg)"

text \<open>The dispatch on the status of the response, the last part of \<open>request\<close>.\<close>

definition json_outcome :: "'a Response \<Rightarrow> 'a outcome" where
  "json_outcome response =
     (case json response of
        Resolved v \<Rightarrow> Resolved (Value v)
      | Rejected e \<Rightarrow> Rejected (Value e))"

definition dispatch :: "'a DashAPI \<Rightarrow> 'a Response \<Rightarrow> 'a outcome" where
  "dispatch api response =
     (if status response = 204 then Resolved Undefined
      else if status response \<ge> 200 \<and> status response \<le> 299 then json_outcome response
      else (case config_errorHandler api of
              Some handler \<Rightarrow> handler response
            | None \<Rightarrow> Rejected (Raw response)))"

text \<open>
  \<open>request\<close>: build the request, run the middlewares, call \<open>fetch\<close> with the URL and the
  options of the final request, and dispatch on the response. A failure of \<open>fetch\<close>
  leaves the \<open>await\<close> as an exception, so the returned promise rejects with it.
\<close>

definition send :: "'a platform \<Rightarrow> 'a DashAPI \<Rightarrow> 'a RequestData \<Rightarrow> ('a Response, 'a) promise" where
  "send pf api requestData =
     fetch pf (getUrl api (path requestData) (params requestData)) (options requestData)"

definition request ::
  "'a platform \<Rightarrow> 'a DashAPI \<Rightarrow> string \<Rightarrow> string \<Rightarrow> 'a ApiRequestConfig option
     \<Rightarrow> 'a outcome" where
  "request pf api p method cfg =
     (case send pf api (final_requestData pf api p method cfg) of
        Rejected e \<Rightarrow> Rejected (Value e)
      | Resolved response \<Rightarrow> dispatch api response)"

text \<open>The configuration \<open>{ params }\<close> that \<open>get\<close> passes to \<open>request\<close>.\<close>

definition params_only :: "HttpParams option \<Rightarrow> 'a ApiRequestConfig" where
  "params_only ps = \<lparr> cfg_params = ps, body = None, formBody = None, form = None \<rparr>"

definition DashAPI_get :: "'a platform \<Rightarrow> 'a DashAPI \<Rightarrow> string \<Rightarrow> HttpParams option \<Rightarrow> 'a outcome"
  where
  "DashAPI_get pf api p ps = request pf api p ''GET'' (Some (params_only ps))"

section \<open>Resources\<close>

record 'a DashResource =
  res_api :: "'a DashAPI"
  name :: string
  res_params :: "HttpParams option"

definition createResource :: "'a DashAPI \<Rightarrow> string \<Rightarrow> HttpParams option \<Rightarrow> 'a DashResource" where
  "createResource api n ps = \<lparr> res_api = api, name = n, res_params = ps \<rparr>"

text \<open>\<open>{ ...(this.params ?? {}), ...(params ?? {}) }\<close>\<close>

definition mergeParams :: "'a DashResource \<Rightarrow> HttpParams option \<Rightarrow> HttpParams" where
  "mergeParams r ps =
     spread (case res_params r of None \<Rightarrow> [] | Some d \<Rightarrow> d)
            (case ps of None \<Rightarrow> [] | Some q \<Rightarrow> q)"

definition DashResource_list ::
  "'a platform \<Rightarrow> 'a DashResource \<Rightarrow> HttpParams option \<Rightarrow> 'a outcome" where
  "DashResource_list pf r ps =
     DashAPI_get pf (res_api r) (name r @ ''/'') (Some (mergeParams r ps))"

text \<open>The identifier is a number or a string; the template literal takes its string form.\<close>

definition DashResource_retrieve :: "'a platform \<Rightarrow> 'a DashResource \<Rightarrow> scalar \<Rightarrow> 'a outcome" where
  "DashResource_retrieve pf r ident =
     DashAPI_get pf (res_api r) (name r @ ''/'' @ String_js ident @ ''/'') (res_params r)"

section \<open>Notions of the specification\<close>

text \<open>
  The definitions of this section are not code of the library. They say, in the words of
  the specification, what the properties below compare the code with: a rejected
  outcome, the headers of a request, the parts of a multipart payload, the filtered and
  comma-joined representation of a parameter mapping, the re-parsing of a query string,
  and a double separator.
\<close>

fun rejected :: "('v, 'e) promise \<Rightarrow> bool" where
  "rejected (Rejected e) = True"
| "rejected (Resolved v) = False"

text \<open>The headers a request carries: the \<open>headers\<close> property of its options.\<close>

definition headers_of :: "'a RequestInit \<Rightarrow> HeadersInit" where
  "headers_of opts = (case opts ''headers'' of Some (Headers h) \<Rightarrow> h | _ \<Rightarrow> Map.empty)"

text \<open>
  The middleware of the test suite that sets the headers \<open>hs\<close>:
  \<open>(data) => ({ ...data, options: { ...data.options,
      headers: { ...data.options.headers, k1: v1, ..., kn: vn } } })\<close>
\<close>

definition set_headers :: "HeadersInit \<Rightarrow> 'a Middleware" where
  "set_headers hs data =
     data\<lparr>options := (options data)(''headers'' \<mapsto> Headers (headers_of (options data) ++ hs))\<rparr>"

text \<open>
  The part of a multipart payload a form field stands for: a \<open>{file, filename}\<close> pair is a
  file under that file name, any other value is its string form.
\<close>

fun form_part :: "string \<times> 'a ApiRequestFormBodyValue \<Rightarrow> string \<times> 'a form_entry" where
  "form_part (k, FormFile blob filename) = (k, FileEntry blob filename)"
| "form_part (k, FormString s) = (k, TextEntry s)"
| "form_part (k, FormNumber n) = (k, TextEntry (number_to_string n))"

text \<open>
  The filtered, comma-joined representation of a parameter mapping: the keys whose value
  is \<open>null\<close>, \<open>undefined\<close> or the empty string are dropped, an array is the strings of its
  elements joined with commas, any other value is its string.
\<close>

fun skipped :: "param \<Rightarrow> bool" where
  "skipped Null = True"
| "skipped Undefined_param = True"
| "skipped (Scalar (Str s)) = (s = [])"
| "skipped (Scalar (Num n)) = False"
| "skipped (Arr ps) = False"

fun joined :: "param \<Rightarrow> string" where
  "joined (Arr ps) = array_join '','' (map String_js ps)"
| "joined (Scalar s) = String_js s"
| "joined Null = []"
| "joined Undefined_param = []"

definition filtered_joined :: "HttpParams \<Rightarrow> string object" where
  "filtered_joined ps = map (\<lambda>(k, v). (k, joined v)) (filter (\<lambda>(k, v). \<not> skipped v) ps)"

text \<open>A key and its joined value, both percent-encoded, with \<open>=\<close> between them.\<close>

definition encoded_pair :: "string \<times> string \<Rightarrow> string" where
  "encoded_pair kv = encodeURIComponent (fst kv) @ ''='' @ encodeURIComponent (snd kv)"

text \<open>
  Re-parsing a query string: split on \<open>&\<close>, split each pair on \<open>=\<close>, percent-decode key
  and value. \<open>split_on\<close> is \<open>String.prototype.split\<close> with a one-character separator;
  \<open>percent_decode\<close> undoes \<open>%XX\<close> and fails on a malformed escape. The empty query string
  holds no pair.
\<close>

fun split_on :: "char \<Rightarrow> string \<Rightarrow> string list" where
  "split_on c [] = [[]]"
| "split_on c (x # xs) =
     (if x = c then [] # split_on c xs
      else (case split_on c xs of
              [] \<Rightarrow> [[x]]
            | piece # pieces \<Rightarrow> (x # piece) # pieces))"

definition hex_value :: "char \<Rightarrow> nat option" where
  "hex_value c = map_of (zip ''0123456789ABCDEFabcdef''
     [0, 1, 2, 3, 4, 5, 6, 7, 8, 9, 10, 11, 12, 13, 14, 15, 10, 11, 12, 13, 14, 15]) c"

fun percent_decode :: "string \<Rightarrow> string option" where
  "percent_decode [] = Some []"
| "percent_decode [c] = (if c = CHR ''%'' then None else Some [c])"
| "percent_decode [c, d] =
     (if c = CHR ''%'' then None else map_option ((#) c) (percent_decode [d]))"
| "percent_decode (c # h1 # h2 # rest) =
     (if c = CHR ''%'' then
        (case (hex_value h1, hex_value h2) of
           (Some a, Some b) \<Rightarrow> map_option ((#) (char_of (16 * a + b))) (percent_decode rest)
         | _ \<Rightarrow> None)
      else map_option ((#) c) (percent_decode (h1 # h2 # rest)))"

definition parse_pair :: "string \<Rightarrow> (string \<times> string) option" where
  "parse_pair p =
     (case split_on CHR ''='' p of
        [k, v] \<Rightarrow>
          (case (percent_decode k, percent_decode v) of
             (Some k', Some v') \<Rightarrow> Some (k', v')
           | _ \<Rightarrow> None)
      | _ \<Rightarrow> None)"

fun all_some :: "'x option list \<Rightarrow> 'x list option" where
  "all_some [] = Some []"
| "all_some (None # xs) = None"
| "all_some (Some x # xs) = map_option ((#) x) (all_some xs)"

definition parse_query :: "string \<Rightarrow> string object option" where
  "parse_query s = (if s = [] then Some [] else all_some (map parse_pair (split_on CHR ''&'' s)))"

text \<open>
  A double separator between base and path: the separator that \<open>getUrl\<close> inserts stands
  next to another one, at the end of the stored base URL or at the start of the path.
\<close>

definition startsWith :: "string \<Rightarrow> string \<Rightarrow> bool" where
  "startsWith s t \<longleftrightarrow> take (length t) s = t"

definition double_separator :: "'a DashAPI \<Rightarrow> string \<Rightarrow> bool" where
  "double_separator api p \<longleftrightarrow> endsWith (baseUrl api) ''/'' \<or> startsWith p ''/''"

section \<open>Examples from the test suite\<close>

text \<open>
  The mocked transport of the tests: every call of \<open>fetch\<close> settles with the given
  response. Opaque values are strings here, and a payload is its own JSON text.
\<close>

definition mock_response :: "int \<Rightarrow> string Response" where
  "mock_response st = \<lparr> status = st, json = Resolved ''res'' \<rparr>"

definition mock_platform :: "string Response \<Rightarrow> string platform" where
  "mock_platform response =
     \<lparr> JSON_stringify = (\<lambda>payload. payload), fetch = (\<lambda>url opts. Resolved response) \<rparr>"

text \<open>
  The handler of the tests:
  \<open>(res) => Promise.reject(res.status === 400 ? 'Invalid data' : 'Unknown error')\<close>
\<close>

definition test_errorHandler :: "string ErrorHandler" where
  "test_errorHandler res =
     Rejected (Value (if status res = 400 then ''Invalid data'' else ''Unknown error''))"

definition server_api :: "string ErrorHandler option \<Rightarrow> string DashAPI" where
  "server_api handler =
     new_DashAPI (Some ''https://server'') (Some \<lparr> errorHandler = handler, cfg_options = None \<rparr>)"

text \<open>
  A client constructed with base options that hold a body and a mode, and the given
  \<open>headers\<close> property (or none).
\<close>

definition preset_api :: "string init_value option \<Rightarrow> string DashAPI" where
  "preset_api hv =
     new_DashAPI (Some ''https://server'')
       (Some \<lparr> errorHandler = None,
               cfg_options = Some ([''body'' \<mapsto> Text ''preset'', ''mode'' \<mapsto> Text ''cors'']
                                     (''headers'' := hv)) \<rparr>)"

text \<open>The resource \<open>book\<close> with default parameters, and the parameters of a call.\<close>

definition book_resource :: "string DashResource" where
  "book_resource =
     createResource (server_api None) ''book''
       (Some [(''page'', Scalar (Num 1)), (''lang'', Scalar (Str ''en''))])"

definition page_two :: HttpParams where
  "page_two = [(''page'', Scalar (Num 2)), (''size'', Scalar (Num 10))]"

text \<open>
  The parameters of the test of \<open>urlParams\<close>:
  \<open>{a: 1, b: '2', c: [3, 4, 5], d: ['a', 'b', 'c'], e: null, f: undefined, g: '', 'h+i': 'h+i'}\<close>
\<close>

definition test_params :: HttpParams where
  "test_params =
     [(''a'', Scalar (Num 1)), (''b'', Scalar (Str ''2'')), (''c'', Arr [Num 3, Num 4, Num 5]),
      (''d'', Arr [Str ''a'', Str ''b'', Str ''c'']), (''e'', Null), (''f'', Undefined_param),
      (''g'', Scalar (Str [])), (''h+i'', Scalar (Str ''h+i''))]"

text \<open>A transport that fails with the URL it was called with.\<close>

definition echo_platform :: "string platform" where
  "echo_platform = \<lparr> JSON_stringify = (\<lambda>payload. payload), fetch = (\<lambda>url opts. Rejected url) \<rparr>"

definition json_config :: "string \<Rightarrow> string ApiRequestConfig" where
  "json_config payload = \<lparr> cfg_params = None, body = Some payload, formBody = None, form = None \<rparr>"

definition form_config :: "string ApiRequestFormBody \<Rightarrow> string ApiRequestConfig" where
  "form_config fb = \<lparr> cfg_params = None, body = None, formBody = Some fb, form = None \<rparr>"

section \<open>The query string\<close>

lemma assign_fresh: "k \<notin> fst ` set acc \<Longrightarrow> assign acc k v = acc @ [(k, v)]"
  by (induction acc) auto

lemma concat_step_member:
  assumes "distinct (map fst ps)" and "(k, v) \<in> set ps"
  shows "concat_step ps k acc = (if skipped v then acc else assign acc k (joined v))"
proof -
  from assms have look: "get_prop ps k = Some v"
    by (simp add: get_prop_def)
  show ?thesis
  proof (cases v)
    case (Scalar s)
    then show ?thesis
    proof (cases s)
      case (Num n)
      with Scalar look show ?thesis by (simp add: concat_step_def)
    next
      case (Str t)
      with Scalar look show ?thesis by (cases t) (simp_all add: concat_step_def)
    qed
  qed (simp_all add: look concat_step_def)
qed

lemma fold_concat_step:
  assumes "distinct (map fst ps)"
  shows "set xs \<subseteq> set ps \<Longrightarrow> distinct (map fst xs) \<Longrightarrow>
    fst ` set acc \<inter> fst ` set xs = {} \<Longrightarrow>
    fold (concat_step ps) (map fst xs) acc = acc @ filtered_joined xs"
proof (induction xs arbitrary: acc)
  case Nil
  then show ?case by (simp add: filtered_joined_def)
next
  case (Cons x xs)
  obtain k v where x: "x = (k, v)" by (cases x)
  from Cons.prems x have mem: "(k, v) \<in> set ps" by simp
  from Cons.prems x have fresh: "k \<notin> fst ` set acc" by auto
  from Cons.prems x have later: "k \<notin> fst ` set xs" by auto
  show ?case
  proof (cases "skipped v")
    case True
    then have "concat_step ps k acc = acc"
      using concat_step_member [OF assms mem] by simp
    moreover have "fold (concat_step ps) (map fst xs) acc = acc @ filtered_joined xs"
      using Cons.prems by (intro Cons.IH) auto
    ultimately show ?thesis
      using True x by (simp add: filtered_joined_def)
  next
    case False
    then have step: "concat_step ps k acc = acc @ [(k, joined v)]"
      using concat_step_member [OF assms mem] fresh by (simp add: assign_fresh)
    have "fold (concat_step ps) (map fst xs) (acc @ [(k, joined v)]) =
        (acc @ [(k, joined v)]) @ filtered_joined xs"
      using Cons.prems later x by (intro Cons.IH) auto
    with step show ?thesis
      using False x by (simp add: filtered_joined_def)
  qed
qed

lemma concatedParams_filtered_joined:
  "distinct (Object_keys ps) \<Longrightarrow> concatedParams ps = filtered_joined ps"
  using fold_concat_step [of ps ps "[]"]
  by (simp add: concatedParams_def Object_keys_def)

lemma keys_filtered_joined:
  "map fst (filtered_joined ps) = map fst (filter (\<lambda>(k, v). \<not> skipped v) ps)"
  by (simp add: filtered_joined_def case_prod_unfold comp_def)

lemma distinct_filtered_joined:
  "distinct (map fst ps) \<Longrightarrow> distinct (map fst (filtered_joined ps))"
  by (simp add: keys_filtered_joined distinct_map_filter)

lemma encode_pair_member:
  "distinct (map fst obj) \<Longrightarrow> (k, v) \<in> set obj \<Longrightarrow> encode_pair obj k = encoded_pair (k, v)"
  by (simp add: encode_pair_def get_prop_def encoded_pair_def)

lemma map_encode_pair:
  assumes "distinct (map fst obj)"
  shows "map (encode_pair obj) (Object_keys obj) = map encoded_pair obj"
  unfolding Object_keys_def map_map
  by (rule map_cong [OF refl]) (auto simp: encode_pair_member [OF assms])

lemma urlParams_pairs:
  assumes "distinct (Object_keys ps)"
  shows "urlParams ps = array_join ''&'' (map encoded_pair (filtered_joined ps))"
proof -
  from assms have "distinct (map fst (filtered_joined ps))"
    by (simp add: Object_keys_def distinct_filtered_joined)
  then show ?thesis
    by (simp add: urlParams_def concatedParams_filtered_joined [OF assms] map_encode_pair)
qed

lemma array_join_all_skipped:
  "\<forall>v \<in> snd ` set ps. skipped v \<Longrightarrow> filtered_joined ps = []"
  by (auto simp: filtered_joined_def filter_empty_conv)

text \<open>
  C6. For a parameter object (each key once), \<open>urlParams\<close> is the \<open>&\<close>-joined list, in
  the order of the keys, of the pairs \<open>key=value\<close> of the filtered, comma-joined
  representation, key and value percent-encoded: the keys whose value is \<open>null\<close>,
  \<open>undefined\<close> or the empty string are dropped, an array is the comma-joined strings of
  its elements, any other value is its string. It is the empty string when no key is
  left. On the parameters of the test it is
  \<open>a=1&b=2&c=3%2C4%2C5&d=a%2Cb%2Cc&h%2Bi=h%2Bi\<close>.
\<close>

theorem urlParams_encoding:
  assumes "distinct (Object_keys ps)"
  shows "urlParams ps = array_join ''&'' (map encoded_pair (filtered_joined ps))
    \<and> ((\<forall>v \<in> snd ` set ps. skipped v) \<longrightarrow> urlParams ps = [])
    \<and> urlParams test_params = ''a=1&b=2&c=3%2C4%2C5&d=a%2Cb%2Cc&h%2Bi=h%2Bi''"
proof -
  have "urlParams test_params = ''a=1&b=2&c=3%2C4%2C5&d=a%2Cb%2Cc&h%2Bi=h%2Bi''"
    by code_simp
  then show ?thesis
    using urlParams_pairs [OF assms] by (auto simp: array_join_all_skipped)
qed

text \<open>The parameters of the test, and parameters that are all dropped.\<close>

theorem urlParams_encoding_witness:
  "urlParams test_params =
     array_join ''&'' (map encoded_pair
       [(''a'', ''1''), (''b'', ''2''), (''c'', ''3,4,5''), (''d'', ''a,b,c''), (''h+i'', ''h+i'')])
   \<and> urlParams [(''e'', Null), (''f'', Undefined_param), (''g'', Scalar (Str []))] = []"
proof -
  have keys: "distinct (Object_keys test_params)"
    "distinct (Object_keys [(''e'', Null), (''f'', Undefined_param), (''g'', Scalar (Str []))])"
    by code_simp+
  have rep: "filtered_joined test_params =
     [(''a'', ''1''), (''b'', ''2''), (''c'', ''3,4,5''), (''d'', ''a,b,c''), (''h+i'', ''h+i'')]"
    by code_simp
  have dropped: "\<forall>v \<in> snd ` set [(''e'', Null), (''f'', Undefined_param), (''g'', Scalar (Str []))].
      skipped v"
    by simp
  show ?thesis
    using urlParams_encoding [OF keys(1), THEN conjunct1]
      urlParams_encoding [OF keys(2), THEN conjunct2, THEN conjunct1, THEN mp, OF dropped]
    by (simp only: rep simp_thms)
qed

subsection \<open>Percent-encoding can be undone\<close>

lemma hex_digit_table:
  "list_all (\<lambda>d. hex_value (hex_digit d) = Some d \<and> hex_digit d \<noteq> CHR ''&''
      \<and> hex_digit d \<noteq> CHR ''='') [0..<16]"
  by code_simp

lemma hex_digit_facts:
  assumes "d < 16"
  shows "hex_value (hex_digit d) = Some d" "hex_digit d \<noteq> CHR ''&''" "hex_digit d \<noteq> CHR ''=''"
  using hex_digit_table assms by (simp_all add: list_all_iff)

lemma uri_unreserved_plain:
  "uri_unreserved c \<Longrightarrow> c \<noteq> CHR ''%'' \<and> c \<noteq> CHR ''&'' \<and> c \<noteq> CHR ''=''"
  by (auto simp: uri_unreserved_def)

lemma byte_nibbles: "of_char c div 16 < (16::nat)" "of_char c mod 16 < (16::nat)"
proof -
  have "of_char c < (16::nat) * 16" using nat_of_char_less_256 [of c] by simp
  then show "of_char c div 16 < (16::nat)" by (rule less_mult_imp_div_less)
  show "of_char c mod 16 < (16::nat)" by simp
qed

lemma encode_byte_no_separator:
  "x \<in> set (encode_byte c) \<Longrightarrow> x \<noteq> CHR ''&'' \<and> x \<noteq> CHR ''=''"
  using uri_unreserved_plain [of c] hex_digit_facts(2,3) [OF byte_nibbles(1), of c]
    hex_digit_facts(2,3) [OF byte_nibbles(2), of c]
  by (auto simp: encode_byte_def split: if_splits)

lemma encodeURIComponent_no_separator:
  "CHR ''&'' \<notin> set (encodeURIComponent s)" "CHR ''='' \<notin> set (encodeURIComponent s)"
  using encode_byte_no_separator by (auto simp: encodeURIComponent_def)

lemma percent_decode_plain:
  "c \<noteq> CHR ''%'' \<Longrightarrow> percent_decode (c # t) = map_option ((#) c) (percent_decode t)"
proof (cases t)
  case Nil
  then show ?thesis if "c \<noteq> CHR ''%''" using that by simp
next
  case (Cons d u)
  then show ?thesis if "c \<noteq> CHR ''%''" using that by (cases u) simp_all
qed

lemma percent_decode_encode_byte:
  "percent_decode (encode_byte c @ t) = map_option ((#) c) (percent_decode t)"
proof (cases "uri_unreserved c")
  case True
  then show ?thesis
    using uri_unreserved_plain [of c] by (simp add: encode_byte_def percent_decode_plain)
next
  case False
  have "16 * (of_char c div 16) + of_char c mod 16 = (of_char c :: nat)"
    by simp
  then have "char_of (16 * (of_char c div 16) + of_char c mod 16 :: nat) = c"
    by (simp only: char_of_char)
  with False show ?thesis
    by (simp add: encode_byte_def hex_digit_facts(1) byte_nibbles)
qed

lemma percent_decode_encode_append:
  "percent_decode (encodeURIComponent s @ t) = map_option ((@) s) (percent_decode t)"
proof (induction s)
  case Nil
  then show ?case by (simp add: encodeURIComponent_def option.map_ident)
next
  case (Cons c s)
  have "encodeURIComponent (c # s) @ t = encode_byte c @ (encodeURIComponent s @ t)"
    by (simp add: encodeURIComponent_def)
  then show ?case
    by (simp only: percent_decode_encode_byte Cons.IH) (simp add: option.map_comp comp_def)
qed

lemma percent_decode_encode: "percent_decode (encodeURIComponent s) = Some s"
  using percent_decode_encode_append [of s "[]"] by simp

subsection \<open>Re-parsing the query string\<close>

lemma split_on_no_separator: "c \<notin> set s \<Longrightarrow> split_on c s = [s]"
  by (induction s) auto

lemma split_on_append: "c \<notin> set a \<Longrightarrow> split_on c (a @ c # b) = a # split_on c b"
  by (induction a) auto

lemma split_on_array_join:
  "pieces \<noteq> [] \<Longrightarrow> \<forall>p \<in> set pieces. c \<notin> set p \<Longrightarrow>
   split_on c (array_join [c] pieces) = pieces"
proof (induction pieces)
  case Nil
  then show ?case by simp
next
  case (Cons x xs)
  show ?case
  proof (cases xs)
    case Nil
    with Cons.prems show ?thesis by (simp add: split_on_no_separator)
  next
    case (Cons y ys)
    with Cons.prems Cons.IH show ?thesis by (simp add: split_on_append)
  qed
qed

lemma array_join_empty: "array_join sep (x # xs) = [] \<Longrightarrow> x = []"
  by (cases xs) simp_all

lemma parse_pair_encoded: "parse_pair (encoded_pair (k, v)) = Some (k, v)"
proof -
  have "split_on CHR ''='' (encodeURIComponent k @ CHR ''='' # encodeURIComponent v) =
      [encodeURIComponent k, encodeURIComponent v]"
    by (simp add: split_on_append split_on_no_separator encodeURIComponent_no_separator)
  then show ?thesis
    by (simp add: parse_pair_def encoded_pair_def percent_decode_encode)
qed

lemma all_some_parse_pairs: "all_some (map (parse_pair \<circ> encoded_pair) obj) = Some obj"
  by (induction obj) (auto simp: parse_pair_encoded)

lemma encoded_pair_no_ampersand: "CHR ''&'' \<notin> set (encoded_pair kv)"
  by (simp add: encoded_pair_def encodeURIComponent_no_separator)

lemma encoded_pair_nonempty: "encoded_pair kv \<noteq> []"
  by (simp add: encoded_pair_def)

lemma parse_query_encoded:
  "parse_query (array_join ''&'' (map encoded_pair obj)) = Some obj"
proof (cases obj)
  case Nil
  then show ?thesis by (simp add: parse_query_def)
next
  case (Cons kv rest)
  then have "array_join ''&'' (map encoded_pair obj) \<noteq> []"
    using array_join_empty [of "''&''" "encoded_pair kv" "map encoded_pair rest"]
    by (auto simp: encoded_pair_nonempty)
  moreover have "split_on CHR ''&'' (array_join ''&'' (map encoded_pair obj)) =
      map encoded_pair obj"
    using Cons by (intro split_on_array_join) (auto simp: encoded_pair_no_ampersand)
  ultimately show ?thesis
    by (simp add: parse_query_def all_some_parse_pairs)
qed

text \<open>
  C7. For parameter objects (each key once): re-parsing the encoding gives back exactly
  the filtered, comma-joined representation; the encoding is a function of that
  representation, and two objects with different representations never have the same
  encoding.
\<close>

theorem urlParams_roundtrip:
  assumes "distinct (Object_keys ps)" and "distinct (Object_keys qs)"
  shows "parse_query (urlParams ps) = Some (filtered_joined ps)
    \<and> (urlParams ps = urlParams qs \<longleftrightarrow> filtered_joined ps = filtered_joined qs)
    \<and> (filtered_joined ps \<noteq> filtered_joined qs \<longrightarrow> urlParams ps \<noteq> urlParams qs)"
proof -
  have parsed: "parse_query (urlParams xs) = Some (filtered_joined xs)"
    if "distinct (Object_keys xs)" for xs
    using that by (simp add: urlParams_pairs parse_query_encoded)
  have "filtered_joined ps = filtered_joined qs" if "urlParams ps = urlParams qs"
    using parsed [OF assms(1)] parsed [OF assms(2)] that by simp
  moreover have "urlParams ps = urlParams qs" if "filtered_joined ps = filtered_joined qs"
    using that by (simp add: urlParams_pairs assms)
  ultimately show ?thesis
    using parsed [OF assms(1)] by blast
qed

text \<open>The parameters of the test, a second object, and the empty object.\<close>

theorem urlParams_roundtrip_witness:
  "parse_query (urlParams test_params) =
     Some [(''a'', ''1''), (''b'', ''2''), (''c'', ''3,4,5''), (''d'', ''a,b,c''), (''h+i'', ''h+i'')]
   \<and> urlParams test_params \<noteq> urlParams page_two
   \<and> parse_query (urlParams []) = Some []"
proof -
  have keys: "distinct (Object_keys test_params)" "distinct (Object_keys page_two)"
    "distinct (Object_keys ([] :: HttpParams))"
    by code_simp+
  have rep: "filtered_joined test_params =
     [(''a'', ''1''), (''b'', ''2''), (''c'', ''3,4,5''), (''d'', ''a,b,c''), (''h+i'', ''h+i'')]"
    "filtered_joined page_two = [(''page'', ''2''), (''size'', ''10'')]"
    "filtered_joined [] = []"
    by code_simp+
  have differ: "filtered_joined test_params \<noteq> filtered_joined page_two"
    unfolding rep by simp
  show ?thesis
    using urlParams_roundtrip [OF keys(1) keys(2), THEN conjunct1]
      urlParams_roundtrip [OF keys(1) keys(2), THEN conjunct2, THEN conjunct2, THEN mp, OF differ]
      urlParams_roundtrip [OF keys(3) keys(3), THEN conjunct1]
    by (simp only: rep simp_thms)
qed

section \<open>The base URL and \<open>getUrl\<close>\<close>

lemma endsWith_two_slashes:
  "endsWith s ''//'' \<longleftrightarrow> endsWith s ''/'' \<and> endsWith (slice_0_minus_1 s) ''/''"
proof (cases s rule: rev_cases)
  case Nil
  then show ?thesis by (simp add: endsWith_def)
next
  case (snoc t c)
  show ?thesis
  proof (cases t rule: rev_cases)
    case Nil
    with snoc show ?thesis by (simp add: endsWith_def slice_0_minus_1_def)
  next
    case (snoc u d)
    with \<open>s = t @ [c]\<close> show ?thesis
      by (auto simp: endsWith_def slice_0_minus_1_def)
  qed
qed

lemma trim_trailing_slash_cases:
  "(endsWith url ''/'' \<longrightarrow> url = trim_trailing_slash url @ ''/'')
   \<and> (\<not> endsWith url ''/'' \<longrightarrow> trim_trailing_slash url = url)"
  by (cases url rule: rev_cases)
     (simp_all add: trim_trailing_slash_def endsWith_def slice_0_minus_1_def)

lemma endsWith_trim:
  "endsWith (trim_trailing_slash url) ''/'' \<longleftrightarrow> endsWith url ''//''"
  by (auto simp: trim_trailing_slash_def endsWith_two_slashes)

text \<open>
  C8, as stated, fails: a base URL that ends in two separators keeps one of them, and
  \<open>getUrl\<close> then puts its own separator next to it.
\<close>

theorem getUrl_double_separator_counterexample:
  "double_separator (new_DashAPI (Some ''https://server//'') (None :: string ApiConfig option))
      ''path''
   \<and> getUrl (new_DashAPI (Some ''https://server//'') (None :: string ApiConfig option))
        ''path'' None = ''https://server//path''"
  by (simp add: double_separator_def getUrl_def new_DashAPI_def trim_trailing_slash_def
      endsWith_def slice_0_minus_1_def)

text \<open>
  C8, amended. The constructor strips exactly one trailing \<open>/\<close> from a base URL that ends
  with one and stores any other base URL as it is. \<open>getUrl\<close> returns the stored base URL,
  one \<open>/\<close> and the path, followed by \<open>?\<close> and the encoded parameters only when parameters
  are given and their encoding is not empty. The inserted separator stands next to
  another one exactly when the base URL given at construction ends in \<open>//\<close> or the path
  starts with \<open>/\<close>; so there is no double separator when neither is the case. On a
  client constructed with \<open>https://server/\<close>, \<open>getUrl('')\<close> is \<open>https://server/\<close>.
\<close>

theorem baseUrl_and_getUrl:
  "(endsWith url ''/'' \<longrightarrow> url = baseUrl (new_DashAPI (Some url) cfg) @ ''/'')
   \<and> (\<not> endsWith url ''/'' \<longrightarrow> baseUrl (new_DashAPI (Some url) cfg) = url)
   \<and> getUrl api p None = baseUrl api @ ''/'' @ p
   \<and> getUrl api p (Some q) =
       baseUrl api @ ''/'' @ p @ (if urlParams q = [] then [] else ''?'' @ urlParams q)
   \<and> (double_separator (new_DashAPI (Some url) cfg) p \<longleftrightarrow>
        endsWith url ''//'' \<or> startsWith p ''/'')
   \<and> (\<not> endsWith url ''//'' \<and> \<not> startsWith p ''/'' \<longrightarrow>
        \<not> double_separator (new_DashAPI (Some url) cfg) p)
   \<and> getUrl (new_DashAPI (Some ''https://server/'') cfg) [] None = ''https://server/''"
proof -
  have base: "baseUrl (new_DashAPI (Some url) cfg) = trim_trailing_slash url" for url
    by (simp add: new_DashAPI_def)
  have "trim_trailing_slash ''https://server/'' = ''https://server''"
    by (simp add: trim_trailing_slash_def endsWith_def slice_0_minus_1_def)
  then have "getUrl (new_DashAPI (Some ''https://server/'') cfg) [] None = ''https://server/''"
    by (simp add: getUrl_def base)
  moreover have "double_separator (new_DashAPI (Some url) cfg) p \<longleftrightarrow>
        endsWith url ''//'' \<or> startsWith p ''/''"
    by (simp add: double_separator_def base endsWith_trim)
  ultimately show ?thesis
    using trim_trailing_slash_cases [of url] by (simp add: base getUrl_def)
qed

text \<open>The base URLs of the test suite, with and without the trailing separator.\<close>

theorem baseUrl_and_getUrl_witness:
  "baseUrl (new_DashAPI (Some ''https://server/'') (None :: string ApiConfig option))
     = ''https://server''
   \<and> baseUrl (new_DashAPI (Some ''https://server'') (None :: string ApiConfig option))
     = ''https://server''
   \<and> \<not> double_separator (new_DashAPI (Some ''https://server/'') (None :: string ApiConfig option))
        ''path''"
proof -
  have ends: "endsWith ''https://server/'' ''/''" "\<not> endsWith ''https://server'' ''/''"
    "\<not> endsWith ''https://server/'' ''//''" "\<not> startsWith ''path'' ''/''"
    by (simp_all add: endsWith_def startsWith_def)
  note trimmed = baseUrl_and_getUrl [of "''https://server/''" "None :: string ApiConfig option",
      THEN conjunct1, THEN mp, OF ends(1)]
  note kept = baseUrl_and_getUrl [of "''https://server''" "None :: string ApiConfig option",
      THEN conjunct2, THEN conjunct1, THEN mp, OF ends(2)]
  note single = baseUrl_and_getUrl [of "''https://server/''" "None :: string ApiConfig option"
      _ "''path''", THEN conjunct2, THEN conjunct2, THEN conjunct2, THEN conjunct2,
      THEN conjunct2, THEN conjunct1, THEN mp, OF conjI, OF ends(3) ends(4)]
  from trimmed have "baseUrl (new_DashAPI (Some ''https://server/'') (None :: string ApiConfig option))
     = ''https://server''"
    by simp
  with kept single show ?thesis by simp
qed

section \<open>The construction of the request\<close>

lemma append_field_member:
  "distinct (map fst fb) \<Longrightarrow> (k, v) \<in> set fb \<Longrightarrow>
   append_field fb k acc = acc @ [form_part (k, v)]"
  by (cases v) (simp_all add: append_field_def get_prop_def)

lemma fold_append_field:
  "distinct (map fst fb) \<Longrightarrow> set xs \<subseteq> set fb \<Longrightarrow>
   fold (append_field fb) (map fst xs) acc = acc @ map form_part xs"
proof (induction xs arbitrary: acc)
  case Nil
  then show ?case by simp
next
  case (Cons x xs)
  obtain k v where x: "x = (k, v)" by (cases x)
  with Cons.prems have "append_field fb k acc = acc @ [form_part (k, v)]"
    by (intro append_field_member) auto
  with Cons x show ?case by simp
qed

lemma build_FormData_parts:
  "distinct (Object_keys fb) \<Longrightarrow> build_FormData fb = map form_part fb"
  using fold_append_field [of fb fb "[]"]
  by (simp add: build_FormData_def Object_keys_def)

lemma config_options_server: "config_options (server_api h) = Map.empty"
  by (simp add: config_options_def server_api_def new_DashAPI_def)

lemma config_options_preset:
  "config_options (preset_api hv) =
     [''body'' \<mapsto> Text ''preset'', ''mode'' \<mapsto> Text ''cors''](''headers'' := hv)"
  by (simp add: config_options_def preset_api_def new_DashAPI_def)

text \<open>
  C2, as stated, fails in its last branch: on a client constructed with a body in its
  options, a call that gives neither \<open>body\<close> nor \<open>formBody\<close> still has a body field, the
  one of the construction.
\<close>

theorem body_encoding_branch_counterexample:
  "config_body (None :: string ApiRequestConfig option) = None
   \<and> config_formBody (None :: string ApiRequestConfig option) = None
   \<and> options (initial_requestData (mock_platform (mock_response 200)) (preset_api None) ''path''
        ''GET'' None) ''body'' = Some (Text ''preset'')"
  by (simp add: initial_requestData_def request_options_def config_body_def
      config_formBody_def config_options_preset)

text \<open>
  C2, amended. The body encoding of a request, read off the options it builds. With a
  \<open>body\<close> (also when a \<open>formBody\<close> is given as well) the body is the JSON text of the
  payload and the headers are exactly \<open>Content-Type: application/json\<close>. Otherwise, with
  a \<open>formBody\<close>, the body is the form data built from it, which holds for each field, in
  order, a file under its file name for a \<open>{file, filename}\<close> pair and the string form for
  any other value; the headers are empty. Otherwise \<open>request\<close> sets no body field of its
  own: the \<open>body\<close> property is the one of the options given at construction, so there is
  none when these have none; the headers are empty.
\<close>

theorem body_encoding_branch:
  "(config_body cfg = Some b \<longrightarrow>
      options (initial_requestData pf api p method cfg) ''body'' = Some (Text (JSON_stringify pf b))
      \<and> options (initial_requestData pf api p method cfg) ''headers'' =
          Some (Headers [''Content-Type'' \<mapsto> ''application/json'']))
   \<and> (config_body cfg = None \<and> config_formBody cfg = Some fb \<longrightarrow>
      options (initial_requestData pf api p method cfg) ''body'' = Some (Form (build_FormData fb))
      \<and> (distinct (Object_keys fb) \<longrightarrow> build_FormData fb = map form_part fb)
      \<and> options (initial_requestData pf api p method cfg) ''headers'' = Some (Headers Map.empty))
   \<and> (config_body cfg = None \<and> config_formBody cfg = None \<longrightarrow>
      options (initial_requestData pf api p method cfg) ''body'' = config_options api ''body''
      \<and> (config_options api ''body'' = None \<longrightarrow>
           options (initial_requestData pf api p method cfg) ''body'' = None)
      \<and> options (initial_requestData pf api p method cfg) ''headers'' = Some (Headers Map.empty))"
  by (simp add: initial_requestData_def request_options_def request_headers_def
      build_FormData_parts)

text \<open>
  The three branches at the requests of the test suite, and the last branch on a client
  constructed with a body in its options.
\<close>

theorem body_encoding_branch_witness:
  "options (initial_requestData (mock_platform (mock_response 200)) (server_api None) ''path'' ''POST''
      (Some (json_config ''payload''))) ''body'' = Some (Text ''payload'')
   \<and> options (initial_requestData (mock_platform (mock_response 200)) (server_api None) ''path'' ''POST''
      (Some (json_config ''payload''))) ''headers''
       = Some (Headers [''Content-Type'' \<mapsto> ''application/json''])
   \<and> options (initial_requestData (mock_platform (mock_response 200)) (server_api None) ''path'' ''POST''
      (Some (form_config [(''name'', FormString ''nameValue''),
                          (''file'', FormFile ''test'' ''filenameValue'')]))) ''body''
       = Some (Form [(''name'', TextEntry ''nameValue''),
                     (''file'', FileEntry ''test'' ''filenameValue'')])
   \<and> options (initial_requestData (mock_platform (mock_response 200)) (server_api None) ''path'' ''POST''
      (Some (form_config [(''name'', FormString ''nameValue''),
                          (''file'', FormFile ''test'' ''filenameValue'')]))) ''headers''
       = Some (Headers Map.empty)
   \<and> options (initial_requestData (mock_platform (mock_response 200)) (server_api None) ''path'' ''GET'' None)
       ''body'' = None
   \<and> options (initial_requestData (mock_platform (mock_response 200)) (server_api None) ''path'' ''GET'' None)
       ''headers'' = Some (Headers Map.empty)
   \<and> options (initial_requestData (mock_platform (mock_response 200)) (preset_api None) ''path'' ''GET'' None)
       ''body'' = Some (Text ''preset'')
   \<and> options (initial_requestData (mock_platform (mock_response 200)) (preset_api None) ''path'' ''GET'' None)
       ''headers'' = Some (Headers Map.empty)"
  using
    body_encoding_branch [of "Some (json_config ''payload'')" "''payload''" "mock_platform (mock_response 200)"
      "server_api None" "''path''" "''POST''"]
    body_encoding_branch [of "Some (form_config [(''name'', FormString ''nameValue''),
        (''file'', FormFile ''test'' ''filenameValue'')])" _ "mock_platform (mock_response 200)"
      "server_api None" "''path''" "''POST''"
      "[(''name'', FormString ''nameValue''), (''file'', FormFile ''test'' ''filenameValue'')]"]
    body_encoding_branch [of None _ "mock_platform (mock_response 200)" "server_api None" "''path''" "''GET''"]
    body_encoding_branch [of None _ "mock_platform (mock_response 200)" "preset_api None" "''path''" "''GET''"]
  by (simp add: config_body_def config_formBody_def json_config_def form_config_def
      mock_platform_def Object_keys_def config_options_server config_options_preset)

lemma request_options_without_base_headers:
  "config_options api' = (config_options api)(''headers'' := hv) \<Longrightarrow>
   request_options pf api' method cfg = request_options pf api method cfg"
  by (auto simp: request_options_def Let_def fun_upd_twist split: option.split)

lemma request_options_other:
  "k \<noteq> ''method'' \<Longrightarrow> k \<noteq> ''headers'' \<Longrightarrow> k \<noteq> ''body'' \<Longrightarrow>
   request_options pf api method cfg k = config_options api k"
  by (cases "config_body cfg"; cases "config_formBody cfg")
     (simp_all add: request_options_def)

lemma request_options_method:
  "request_options pf api method cfg ''method'' = Some (Text method)"
  by (cases "config_body cfg"; cases "config_formBody cfg")
     (simp_all add: request_options_def)

lemma request_options_headers:
  "request_options pf api method cfg ''headers'' = Some (Headers (request_headers cfg))"
  by (simp add: request_options_def Let_def)

lemma request_options_no_body:
  "config_body cfg = None \<Longrightarrow> config_formBody cfg = None \<Longrightarrow>
   request_options pf api method cfg ''body'' = config_options api ''body''"
  by (simp add: request_options_def)

lemma request_options_json_body:
  "config_body cfg = Some b \<Longrightarrow>
   request_options pf api method cfg ''body'' = Some (Text (JSON_stringify pf b))"
  by (simp add: request_options_def)

lemma request_options_form_body:
  "config_body cfg = None \<Longrightarrow> config_formBody cfg = Some fb \<Longrightarrow>
   request_options pf api method cfg ''body'' = Some (Form (build_FormData fb))"
  by (simp add: request_options_def)

text \<open>
  C9, as stated, fails for the \<open>body\<close> property: a body in the options given at
  construction is replaced by the body of the call.
\<close>

theorem base_options_frame_counterexample:
  "''body'' \<noteq> ''method'' \<and> ''body'' \<noteq> ''headers''
   \<and> config_options (preset_api None) ''body'' = Some (Text ''preset'')
   \<and> options (initial_requestData (mock_platform (mock_response 200)) (preset_api None) ''path''
        ''POST'' (Some (json_config ''payload''))) ''body'' = Some (Text ''payload'')"
  by (simp add: initial_requestData_def request_options_def config_body_def json_config_def
      mock_platform_def config_options_def preset_api_def new_DashAPI_def)

text \<open>
  C9, amended. The options built before the middlewares run: \<open>method\<close> is the method of
  the call; \<open>headers\<close> is the freshly computed object (empty, or only
  \<open>Content-Type: application/json\<close> for a JSON body); every property other than
  \<open>method\<close>, \<open>headers\<close> and \<open>body\<close> is the one of the options given at construction;
  \<open>body\<close> is the JSON text of the payload when the call gives a \<open>body\<close>, the form data
  when it gives a \<open>formBody\<close> and no \<open>body\<close>, and the one of the options given at
  construction when it gives neither; a \<open>headers\<close> property given at construction
  changes nothing of the request built.
\<close>

theorem base_options_frame:
  "options (initial_requestData pf api p method cfg) ''method'' = Some (Text method)
   \<and> options (initial_requestData pf api p method cfg) ''headers'' =
       Some (Headers (request_headers cfg))
   \<and> (config_body cfg = None \<longrightarrow> request_headers cfg = Map.empty)
   \<and> (config_body cfg \<noteq> None \<longrightarrow>
        request_headers cfg = [''Content-Type'' \<mapsto> ''application/json''])
   \<and> (\<forall>k. k \<noteq> ''method'' \<and> k \<noteq> ''headers'' \<and> k \<noteq> ''body'' \<longrightarrow>
        options (initial_requestData pf api p method cfg) k = config_options api k)
   \<and> (config_body cfg = None \<and> config_formBody cfg = None \<longrightarrow>
        options (initial_requestData pf api p method cfg) ''body'' = config_options api ''body'')
   \<and> (config_body cfg = Some b \<longrightarrow>
        options (initial_requestData pf api p method cfg) ''body'' =
          Some (Text (JSON_stringify pf b)))
   \<and> (config_body cfg = None \<and> config_formBody cfg = Some fb \<longrightarrow>
        options (initial_requestData pf api p method cfg) ''body'' =
          Some (Form (build_FormData fb)))
   \<and> (config_options api' = (config_options api)(''headers'' := hv) \<longrightarrow>
        initial_requestData pf api' p method cfg = initial_requestData pf api p method cfg)"
proof -
  have "config_options api' = (config_options api)(''headers'' := hv) \<longrightarrow>
        initial_requestData pf api' p method cfg = initial_requestData pf api p method cfg"
    by (simp add: initial_requestData_def request_options_without_base_headers)
  moreover have "config_body cfg = None \<longrightarrow> request_headers cfg = Map.empty"
    by (simp add: request_headers_def)
  moreover have "config_body cfg \<noteq> None \<longrightarrow>
        request_headers cfg = [''Content-Type'' \<mapsto> ''application/json'']"
    by (auto simp: request_headers_def)
  moreover have "options (initial_requestData pf api p method cfg) =
      request_options pf api method cfg"
    by (simp add: initial_requestData_def)
  ultimately show ?thesis
    by (simp add: request_options_other request_options_method request_options_headers
        request_options_no_body request_options_json_body request_options_form_body)
qed

text \<open>
  The amended statement at a client whose base options hold a body, a mode and an
  \<open>Authorization\<close> header, for a GET without body, a POST with a JSON body and a POST
  with a form body.
\<close>

theorem base_options_frame_witness:
  "options (initial_requestData (mock_platform (mock_response 200))
      (preset_api (Some (Headers [''Authorization'' \<mapsto> ''token''])))
      ''path'' ''GET'' None) ''method'' = Some (Text ''GET'')
   \<and> options (initial_requestData (mock_platform (mock_response 200))
      (preset_api (Some (Headers [''Authorization'' \<mapsto> ''token''])))
      ''path'' ''GET'' None) ''headers'' = Some (Headers Map.empty)
   \<and> options (initial_requestData (mock_platform (mock_response 200))
      (preset_api (Some (Headers [''Authorization'' \<mapsto> ''token''])))
      ''path'' ''GET'' None) ''mode'' = Some (Text ''cors'')
   \<and> options (initial_requestData (mock_platform (mock_response 200))
      (preset_api (Some (Headers [''Authorization'' \<mapsto> ''token''])))
      ''path'' ''GET'' None) ''body'' = Some (Text ''preset'')
   \<and> initial_requestData (mock_platform (mock_response 200))
      (preset_api (Some (Headers [''Authorization'' \<mapsto> ''token''])))
      ''path'' ''GET'' None
     = initial_requestData (mock_platform (mock_response 200)) (preset_api None)
         ''path'' ''GET'' None
   \<and> options (initial_requestData (mock_platform (mock_response 200)) (preset_api None)
        ''path'' ''POST'' (Some (json_config ''payload''))) ''body'' = Some (Text ''payload'')
   \<and> options (initial_requestData (mock_platform (mock_response 200)) (preset_api None)
        ''path'' ''POST'' (Some (json_config ''payload''))) ''headers''
       = Some (Headers [''Content-Type'' \<mapsto> ''application/json''])
   \<and> options (initial_requestData (mock_platform (mock_response 200)) (preset_api None)
        ''path'' ''POST'' (Some (form_config [(''name'', FormString ''nameValue'')]))) ''body''
       = Some (Form (build_FormData [(''name'', FormString ''nameValue'')]))"
proof -
  have json: "config_body (Some (json_config ''payload'')) = Some ''payload''"
    by (simp add: config_body_def json_config_def)
  have form: "config_body (Some (form_config [(''name'', FormString ''nameValue'')])) = None"
    "config_formBody (Some (form_config [(''name'', FormString ''nameValue'')])) =
       Some [(''name'', FormString ''nameValue'')]"
    by (simp_all add: config_body_def config_formBody_def form_config_def)
  note json_frame = base_options_frame [of "mock_platform (mock_response 200)"
      "preset_api None" "''path''" "''POST''" "Some (json_config ''payload'')" "''payload''"]
  note form_frame = base_options_frame [of "mock_platform (mock_response 200)"
      "preset_api None" "''path''" "''POST''"
      "Some (form_config [(''name'', FormString ''nameValue'')])" _
      "[(''name'', FormString ''nameValue'')]"]
  have json_body: "options (initial_requestData (mock_platform (mock_response 200))
        (preset_api None) ''path'' ''POST'' (Some (json_config ''payload''))) ''body''
      = Some (Text ''payload'')"
    using json_frame [THEN conjunct2, THEN conjunct2, THEN conjunct2, THEN conjunct2,
        THEN conjunct2, THEN conjunct2, THEN conjunct1, THEN mp, OF json]
    by (simp add: mock_platform_def)
  have json_headers: "options (initial_requestData (mock_platform (mock_response 200))
        (preset_api None) ''path'' ''POST'' (Some (json_config ''payload''))) ''headers''
      = Some (Headers [''Content-Type'' \<mapsto> ''application/json''])"
    using json_frame [THEN conjunct2, THEN conjunct1]
      json_frame [THEN conjunct2, THEN conjunct2, THEN conjunct2, THEN conjunct1] json
    by simp
  have form_body: "options (initial_requestData (mock_platform (mock_response 200))
        (preset_api None) ''path'' ''POST''
        (Some (form_config [(''name'', FormString ''nameValue'')]))) ''body''
      = Some (Form (build_FormData [(''name'', FormString ''nameValue'')]))"
    using form_frame [THEN conjunct2, THEN conjunct2, THEN conjunct2, THEN conjunct2,
        THEN conjunct2, THEN conjunct2, THEN conjunct2, THEN conjunct1, THEN mp,
        OF conjI, OF form]
    by simp
  have none: "config_body (None :: string ApiRequestConfig option) = None"
    "config_formBody (None :: string ApiRequestConfig option) = None"
    by (simp_all add: config_body_def config_formBody_def)
  have preset: "config_options (preset_api (Some (Headers [''Authorization'' \<mapsto> ''token'']))) =
      (config_options (preset_api None))
        (''headers'' := Some (Headers [''Authorization'' \<mapsto> ''token'']))"
    by (simp add: config_options_preset)
  note frame = base_options_frame [of "mock_platform (mock_response 200)"
      "preset_api (Some (Headers [''Authorization'' \<mapsto> ''token'']))" "''path''" "''GET''" None]
  note discarded = base_options_frame [of "mock_platform (mock_response 200)"
      "preset_api None" "''path''" "''GET''" None _ _
      "preset_api (Some (Headers [''Authorization'' \<mapsto> ''token'']))"
      "Some (Headers [''Authorization'' \<mapsto> ''token''])"]
  have "request_headers (None :: string ApiRequestConfig option) = Map.empty"
    using frame [THEN conjunct2, THEN conjunct2, THEN conjunct1] none by simp
  moreover have "options (initial_requestData (mock_platform (mock_response 200))
      (preset_api (Some (Headers [''Authorization'' \<mapsto> ''token''])))
      ''path'' ''GET'' None) ''mode'' = Some (Text ''cors'')"
    using frame [THEN conjunct2, THEN conjunct2, THEN conjunct2, THEN conjunct2,
        THEN conjunct1, THEN spec, of "''mode''"]
    by (simp add: config_options_preset)
  moreover have "options (initial_requestData (mock_platform (mock_response 200))
      (preset_api (Some (Headers [''Authorization'' \<mapsto> ''token''])))
      ''path'' ''GET'' None) ''body'' = Some (Text ''preset'')"
    using frame [THEN conjunct2, THEN conjunct2, THEN conjunct2, THEN conjunct2,
        THEN conjunct2, THEN conjunct1] none
    by (simp add: config_options_preset)
  moreover have "initial_requestData (mock_platform (mock_response 200))
      (preset_api (Some (Headers [''Authorization'' \<mapsto> ''token''])))
      ''path'' ''GET'' None
     = initial_requestData (mock_platform (mock_response 200)) (preset_api None)
         ''path'' ''GET'' None"
    using discarded [THEN conjunct2, THEN conjunct2, THEN conjunct2, THEN conjunct2,
        THEN conjunct2, THEN conjunct2, THEN conjunct2, THEN conjunct2] preset by simp
  ultimately show ?thesis
    using frame [THEN conjunct1] frame [THEN conjunct2, THEN conjunct1]
      json_body json_headers form_body
    by simp
qed

lemma config_form:
  "config_params (Some (c\<lparr>form := f\<rparr>)) = config_params (Some c)"
  "config_body (Some (c\<lparr>form := f\<rparr>)) = config_body (Some c)"
  "config_formBody (Some (c\<lparr>form := f\<rparr>)) = config_formBody (Some c)"
  by (simp_all add: config_params_def config_body_def config_formBody_def)

lemma initial_form:
  "initial_requestData pf api p method (Some (c\<lparr>form := f\<rparr>)) =
   initial_requestData pf api p method (Some c)"
  unfolding initial_requestData_def request_options_def request_headers_def config_form ..

text \<open>
  C10. The \<open>form\<close> flag has no effect: two configurations that differ only in it (whatever
  its value, present or not) give the same initial request, the same request after the
  middlewares and the same outcome. The body is chosen from \<open>body\<close> and \<open>formBody\<close>
  alone.
\<close>

theorem form_flag_without_effect:
  "initial_requestData pf api p method (Some (c\<lparr>form := f\<rparr>)) =
     initial_requestData pf api p method (Some c)
   \<and> final_requestData pf api p method (Some (c\<lparr>form := f\<rparr>)) =
     final_requestData pf api p method (Some c)
   \<and> request pf api p method (Some (c\<lparr>form := f\<rparr>)) = request pf api p method (Some c)
   \<and> options (initial_requestData pf api p method (Some c)) ''body'' =
       (case body c of
          Some b \<Rightarrow> Some (Text (JSON_stringify pf b))
        | None \<Rightarrow>
            (case formBody c of
               Some fb \<Rightarrow> Some (Form (build_FormData fb))
             | None \<Rightarrow> config_options api ''body''))"
proof -
  have "options (initial_requestData pf api p method (Some c)) ''body'' =
       (case body c of
          Some b \<Rightarrow> Some (Text (JSON_stringify pf b))
        | None \<Rightarrow>
            (case formBody c of
               Some fb \<Rightarrow> Some (Form (build_FormData fb))
             | None \<Rightarrow> config_options api ''body''))"
    by (simp add: initial_requestData_def request_options_def config_body_def
        config_formBody_def split: option.split)
  then show ?thesis
    unfolding request_def final_requestData_def initial_form by simp
qed

text \<open>The same request with the flag absent, \<open>true\<close> and \<open>false\<close>.\<close>

theorem form_flag_without_effect_witness:
  "request (mock_platform (mock_response 200)) (server_api None) ''path'' ''POST''
      (Some ((json_config ''payload'')\<lparr>form := Some True\<rparr>))
     = request (mock_platform (mock_response 200)) (server_api None) ''path'' ''POST''
         (Some (json_config ''payload''))
   \<and> request (mock_platform (mock_response 200)) (server_api None) ''path'' ''POST''
      (Some ((json_config ''payload'')\<lparr>form := Some False\<rparr>))
     = request (mock_platform (mock_response 200)) (server_api None) ''path'' ''POST''
         (Some (json_config ''payload''))"
  using
    form_flag_without_effect [of "mock_platform (mock_response 200)" "server_api None"
      "''path''" "''POST''" "Some True" "json_config ''payload''"]
    form_flag_without_effect [of "mock_platform (mock_response 200)" "server_api None"
      "''path''" "''POST''" "Some False" "json_config ''payload''"]
  by simp

section \<open>The middleware chain\<close>

lemma initial_addMiddleware:
  "initial_requestData pf (addMiddleware api m) p method cfg =
   initial_requestData pf api p method cfg"
  by (simp add: initial_requestData_def request_options_def config_options_def addMiddleware_def)

lemma middlewares_addMiddleware:
  "middlewares (addMiddleware api m) = middlewares api @ [m]"
  by (simp add: addMiddleware_def)

lemma final_two_middlewares:
  "final_requestData pf (addMiddleware (addMiddleware api m1) m2) p method cfg =
   m2 (m1 (final_requestData pf api p method cfg))"
  by (simp add: final_requestData_def initial_addMiddleware middlewares_addMiddleware
      apply_middlewares_def)

lemma headers_of_set_headers:
  "headers_of (options (set_headers hs rd)) = headers_of (options rd) ++ hs"
  by (simp add: set_headers_def headers_of_def)

text \<open>
  C3. The middlewares are applied to the initial request from left to right in the order
  of registration, each to the whole result of the one before; \<open>addMiddleware\<close> registers
  at the end. So of two header-setting middlewares the one registered later wins on a
  header both set, a header only one of them sets is kept, and every other header is as
  it was before them. \<open>fetch\<close> is called with the URL of the path and the parameters of
  the final request, and with its options.
\<close>

theorem middlewares_in_registration_order:
  "final_requestData pf api p method cfg =
     foldl (\<lambda>rd middleware. middleware rd) (initial_requestData pf api p method cfg)
       (middlewares api)
   \<and> middlewares (addMiddleware (addMiddleware api m1) m2) = middlewares api @ [m1, m2]
   \<and> final_requestData pf (addMiddleware (addMiddleware api m1) m2) p method cfg =
       m2 (m1 (final_requestData pf api p method cfg))
   \<and> headers_of (options (final_requestData pf
         (addMiddleware (addMiddleware api (set_headers h1)) (set_headers h2)) p method cfg)) =
       headers_of (options (final_requestData pf api p method cfg)) ++ h1 ++ h2
   \<and> (\<forall>k v. h2 k = Some v \<longrightarrow>
         headers_of (options (final_requestData pf
           (addMiddleware (addMiddleware api (set_headers h1)) (set_headers h2)) p method cfg)) k
         = Some v)
   \<and> (\<forall>k v. h1 k = Some v \<and> h2 k = None \<longrightarrow>
         headers_of (options (final_requestData pf
           (addMiddleware (addMiddleware api (set_headers h1)) (set_headers h2)) p method cfg)) k
         = Some v)
   \<and> (\<forall>k. h1 k = None \<and> h2 k = None \<longrightarrow>
         headers_of (options (final_requestData pf
           (addMiddleware (addMiddleware api (set_headers h1)) (set_headers h2)) p method cfg)) k
         = headers_of (options (final_requestData pf api p method cfg)) k)
   \<and> request pf api p method cfg =
       (case fetch pf (getUrl api (path (final_requestData pf api p method cfg))
                         (params (final_requestData pf api p method cfg)))
                (options (final_requestData pf api p method cfg)) of
          Rejected e \<Rightarrow> Rejected (Value e)
        | Resolved response \<Rightarrow> dispatch api response)"
proof -
  have "final_requestData pf api p method cfg =
     foldl (\<lambda>rd middleware. middleware rd) (initial_requestData pf api p method cfg)
       (middlewares api)"
    by (simp add: final_requestData_def apply_middlewares_def foldl_conv_fold)
  moreover have "middlewares (addMiddleware (addMiddleware api m1) m2) = middlewares api @ [m1, m2]"
    by (simp add: middlewares_addMiddleware)
  moreover have "request pf api p method cfg =
       (case fetch pf (getUrl api (path (final_requestData pf api p method cfg))
                         (params (final_requestData pf api p method cfg)))
                (options (final_requestData pf api p method cfg)) of
          Rejected e \<Rightarrow> Rejected (Value e)
        | Resolved response \<Rightarrow> dispatch api response)"
    by (simp add: request_def send_def)
  moreover have "headers_of (options (final_requestData pf
         (addMiddleware (addMiddleware api (set_headers h1)) (set_headers h2)) p method cfg)) =
       headers_of (options (final_requestData pf api p method cfg)) ++ h1 ++ h2"
    by (simp only: final_two_middlewares headers_of_set_headers)
  ultimately show ?thesis
    by (simp add: final_two_middlewares map_add_def)
qed

lemma example_json_headers:
  "headers_of (options (final_requestData pf (server_api None) p method
      (Some (json_config payload)))) = [''Content-Type'' \<mapsto> ''application/json'']"
  by (simp add: final_requestData_def apply_middlewares_def initial_requestData_def
      request_options_def request_headers_def config_body_def json_config_def headers_of_def
      server_api_def new_DashAPI_def Let_def)

text \<open>
  The two middlewares of the test suite on a POST with a JSON body: \<open>X-Test\<close> is \<open>b\<close>,
  \<open>X-CSRFToken\<close> and \<open>Content-Type\<close> are kept.
\<close>

theorem middlewares_in_registration_order_witness:
  "headers_of (options (final_requestData (mock_platform (mock_response 200))
      (addMiddleware
         (addMiddleware (server_api None)
            (set_headers [''X-Test'' \<mapsto> ''a'', ''X-CSRFToken'' \<mapsto> ''abcdefg'']))
         (set_headers [''X-Test'' \<mapsto> ''b'']))
      ''path'' ''POST'' (Some (json_config ''payload''))))
   = [''Content-Type'' \<mapsto> ''application/json'', ''X-CSRFToken'' \<mapsto> ''abcdefg'',
      ''X-Test'' \<mapsto> ''b'']"
proof -
  note ordered = middlewares_in_registration_order [of "mock_platform (mock_response 200)"
      "server_api None" "''path''" "''POST''" "Some (json_config ''payload'')"
      "set_headers [''X-Test'' \<mapsto> ''a'', ''X-CSRFToken'' \<mapsto> ''abcdefg'']"
      "set_headers [''X-Test'' \<mapsto> ''b'']"
      "[''X-Test'' \<mapsto> ''a'', ''X-CSRFToken'' \<mapsto> ''abcdefg'']" "[''X-Test'' \<mapsto> ''b'']"]
  note headers = ordered [THEN conjunct2, THEN conjunct2, THEN conjunct2, THEN conjunct1]
  show ?thesis
    unfolding headers example_json_headers by (rule ext) simp
qed

section \<open>The status dispatch of \<open>request\<close>\<close>

lemma request_after_send:
  "send pf api (final_requestData pf api p method cfg) = Resolved response \<Longrightarrow>
   request pf api p method cfg = dispatch api response"
  by (simp add: request_def)

lemma send_mock: "send (mock_platform r) api rd = Resolved r"
  by (simp add: send_def mock_platform_def)

lemma handler_server_api: "config_errorHandler (server_api h) = h"
  by (simp add: config_errorHandler_def server_api_def new_DashAPI_def)

text \<open>
  C1. When the transport answers the request with a response: status 204 resolves with
  \<open>undefined\<close>, whatever the body; any other status from 200 to 299 settles with what
  decoding the body as JSON gives (the decoded body when it decodes); any other status
  gives the result of the configured error handler on the raw response, as it is, and
  without a handler rejects with the raw response.
\<close>

theorem request_status_dispatch:
  assumes "send pf api (final_requestData pf api p method cfg) = Resolved response"
  shows "(status response = 204 \<longrightarrow> request pf api p method cfg = Resolved Undefined)
    \<and> (status response \<noteq> 204 \<and> 200 \<le> status response \<and> status response \<le> 299 \<longrightarrow>
         (\<forall>v. json response = Resolved v \<longrightarrow>
               request pf api p method cfg = Resolved (Value v))
         \<and> (\<forall>e. json response = Rejected e \<longrightarrow>
               request pf api p method cfg = Rejected (Value e)))
    \<and> (\<not> (200 \<le> status response \<and> status response \<le> 299) \<longrightarrow>
         (\<forall>h. config_errorHandler api = Some h \<longrightarrow> request pf api p method cfg = h response)
         \<and> (config_errorHandler api = None \<longrightarrow>
               request pf api p method cfg = Rejected (Raw response)))"
  using request_after_send [OF assms]
  by (auto simp: dispatch_def json_outcome_def)

text \<open>The theorem at the four cases of the test suite.\<close>

theorem request_status_dispatch_witness:
  "request (mock_platform (mock_response 204)) (server_api None) ''path'' ''POST'' None
     = Resolved Undefined
   \<and> request (mock_platform (mock_response 200)) (server_api None) ''path'' ''GET'' None
     = Resolved (Value ''res'')
   \<and> request (mock_platform (mock_response 400)) (server_api None) ''path'' ''POST'' None
     = Rejected (Raw (mock_response 400))
   \<and> request (mock_platform (mock_response 400)) (server_api (Some test_errorHandler))
       ''path'' ''POST'' None
     = Rejected (Value ''Invalid data'')"
  using
    request_status_dispatch [OF send_mock, of "mock_response 204" "server_api None" "''path''" "''POST''" None]
    request_status_dispatch [OF send_mock, of "mock_response 200" "server_api None" "''path''" "''GET''" None]
    request_status_dispatch [OF send_mock, of "mock_response 400" "server_api None" "''path''" "''POST''" None]
    request_status_dispatch [OF send_mock, of "mock_response 400" "server_api (Some test_errorHandler)" "''path''" "''POST''" None]
  by (simp add: handler_server_api mock_response_def test_errorHandler_def)

text \<open>
  C5. An error handler is, by its type and by the documentation of the constructor, a
  function that returns a rejected promise. On a client whose handler, when one is
  configured, keeps to that, every response whose status is neither 204 nor from 200 to
  299 gives a rejected outcome, with a handler or without one.
\<close>

theorem error_response_rejected:
  assumes "send pf api (final_requestData pf api p method cfg) = Resolved response"
    and "status response \<noteq> 204"
    and "\<not> (200 \<le> status response \<and> status response \<le> 299)"
    and "\<And>h res. config_errorHandler api = Some h \<Longrightarrow> rejected (h res)"
  shows "rejected (request pf api p method cfg)"
proof (cases "config_errorHandler api")
  case None
  with request_after_send [OF assms(1)] assms(2,3) show ?thesis
    by (simp add: dispatch_def)
next
  case (Some h)
  with request_after_send [OF assms(1)] assms(2,3) assms(4) [OF Some, of response]
  show ?thesis
    by (simp add: dispatch_def)
qed

text \<open>A response of status 400 without a handler, and with the handler of the tests.\<close>

theorem error_response_rejected_witness:
  "rejected (request (mock_platform (mock_response 400)) (server_api None) ''path'' ''POST'' None)
   \<and> rejected (request (mock_platform (mock_response 400)) (server_api (Some test_errorHandler))
        ''path'' ''POST'' None)"
proof
  show "rejected (request (mock_platform (mock_response 400)) (server_api None)
      ''path'' ''POST'' None)"
  proof (rule error_response_rejected [OF send_mock])
    show "status (mock_response 400) \<noteq> 204"
      by (simp add: mock_response_def)
    show "\<not> (200 \<le> status (mock_response 400) \<and> status (mock_response 400) \<le> 299)"
      by (simp add: mock_response_def)
    show "rejected (h res)" if "config_errorHandler (server_api None) = Some h" for h res
      using that by (simp add: handler_server_api)
  qed
  show "rejected (request (mock_platform (mock_response 400))
      (server_api (Some test_errorHandler)) ''path'' ''POST'' None)"
  proof (rule error_response_rejected [OF send_mock])
    show "status (mock_response 400) \<noteq> 204"
      by (simp add: mock_response_def)
    show "\<not> (200 \<le> status (mock_response 400) \<and> status (mock_response 400) \<le> 299)"
      by (simp add: mock_response_def)
    show "rejected (h res)"
      if "config_errorHandler (server_api (Some test_errorHandler)) = Some h" for h res
      using that by (auto simp: handler_server_api test_errorHandler_def)
  qed
qed

section \<open>Requests of a resource\<close>

lemma map_of_assign: "map_of (assign acc k v) = (map_of acc)(k \<mapsto> v)"
  by (induction acc) auto

lemma map_of_fold_spread:
  "set ks \<subseteq> dom (map_of b) \<Longrightarrow>
   map_of (fold (\<lambda>k acc. case get_prop b k of None \<Rightarrow> acc | Some v \<Rightarrow> assign acc k v) ks a) k
     = (if k \<in> set ks then map_of b k else map_of a k)"
proof (induction ks arbitrary: a)
  case Nil
  then show ?case by simp
next
  case (Cons k0 ks)
  then obtain v0 where v0: "map_of b k0 = Some v0" by auto
  with Cons show ?case
    by (simp add: get_prop_def map_of_assign)
qed

lemma get_prop_spread:
  "get_prop (spread a b) k = (case get_prop b k of Some v \<Rightarrow> Some v | None \<Rightarrow> get_prop a k)"
proof -
  have "set (Object_keys b) \<subseteq> dom (map_of b)"
    by (auto simp: Object_keys_def dom_map_of_conv_image_fst)
  then have "map_of (spread a b) k =
      (if k \<in> set (Object_keys b) then map_of b k else map_of a k)"
    unfolding spread_def by (rule map_of_fold_spread)
  moreover have "k \<in> set (Object_keys b) \<longleftrightarrow> map_of b k \<noteq> None"
    by (simp add: Object_keys_def map_of_eq_None_iff)
  ultimately show ?thesis
    by (auto simp: get_prop_def split: option.split)
qed

lemma keys_spread:
  "set (Object_keys (spread a b)) = set (Object_keys a) \<union> set (Object_keys b)"
proof -
  have keys: "set (Object_keys x) = {k. get_prop x k \<noteq> None}" for x :: "'a object"
    by (auto simp: Object_keys_def get_prop_def map_of_eq_None_iff)
  show ?thesis
    unfolding keys by (auto simp: get_prop_spread split: option.splits)
qed

lemma initial_get:
  "initial_requestData pf api p ''GET'' (Some (params_only ps)) =
     \<lparr> path = p, params = ps,
       options = (config_options api)(''method'' \<mapsto> Text ''GET'', ''headers'' \<mapsto> Headers Map.empty) \<rparr>"
  by (simp add: initial_requestData_def request_options_def request_headers_def
      config_params_def config_body_def config_formBody_def params_only_def)

text \<open>
  C4. \<open>list(p)\<close> on a resource named \<open>n\<close> with default parameters \<open>d\<close> is a GET request to
  the path \<open>n/\<close> whose parameters are the merge of \<open>d\<close> and \<open>p\<close>: reading a key gives the
  caller's value when the caller supplies the key and the default otherwise, and the keys
  are those of both. \<open>retrieve(id)\<close> is a GET request to \<open>n/{id}/\<close> with exactly \<open>d\<close> as
  parameters; it takes no parameters from the caller.
\<close>

theorem resource_list_and_retrieve:
  "DashResource_list pf r ps =
     request pf (res_api r) (name r @ ''/'') ''GET'' (Some (params_only (Some (mergeParams r ps))))
   \<and> initial_requestData pf (res_api r) (name r @ ''/'') ''GET''
        (Some (params_only (Some (mergeParams r ps)))) =
       \<lparr> path = name r @ ''/'', params = Some (mergeParams r ps),
         options = (config_options (res_api r))
           (''method'' \<mapsto> Text ''GET'', ''headers'' \<mapsto> Headers Map.empty) \<rparr>
   \<and> (\<forall>k. get_prop (mergeParams r ps) k =
         (case get_prop (case ps of None \<Rightarrow> [] | Some q \<Rightarrow> q) k of
            Some v \<Rightarrow> Some v
          | None \<Rightarrow> get_prop (case res_params r of None \<Rightarrow> [] | Some d \<Rightarrow> d) k))
   \<and> set (Object_keys (mergeParams r ps)) =
        set (Object_keys (case res_params r of None \<Rightarrow> [] | Some d \<Rightarrow> d))
        \<union> set (Object_keys (case ps of None \<Rightarrow> [] | Some q \<Rightarrow> q))
   \<and> DashResource_retrieve pf r ident =
       request pf (res_api r) (name r @ ''/'' @ String_js ident @ ''/'') ''GET''
         (Some (params_only (res_params r)))
   \<and> initial_requestData pf (res_api r) (name r @ ''/'' @ String_js ident @ ''/'') ''GET''
        (Some (params_only (res_params r))) =
       \<lparr> path = name r @ ''/'' @ String_js ident @ ''/'', params = res_params r,
         options = (config_options (res_api r))
           (''method'' \<mapsto> Text ''GET'', ''headers'' \<mapsto> Headers Map.empty) \<rparr>"
  by (simp add: DashResource_list_def DashResource_retrieve_def DashAPI_get_def initial_get
      mergeParams_def get_prop_spread keys_spread)

text \<open>
  The resource \<open>book\<close> with defaults \<open>page=1\<close>, \<open>lang=en\<close>, called with \<open>page=2\<close>,
  \<open>size=10\<close>, on a transport that reports the URL it is given.
\<close>

theorem resource_list_and_retrieve_witness:
  "DashResource_list echo_platform book_resource (Some page_two)
     = Rejected (Value ''https://server/book/?page=2&lang=en&size=10'')
   \<and> DashResource_retrieve echo_platform book_resource (Num 7)
     = Rejected (Value ''https://server/book/7/?page=1&lang=en'')"
proof -
  note claim = resource_list_and_retrieve [of echo_platform book_resource "Some page_two" "Num 7"]
  have "request echo_platform (res_api book_resource) (name book_resource @ ''/'') ''GET''
      (Some (params_only (Some (mergeParams book_resource (Some page_two)))))
     = Rejected (Value ''https://server/book/?page=2&lang=en&size=10'')"
    by code_simp
  moreover have "request echo_platform (res_api book_resource)
      (name book_resource @ ''/'' @ String_js (Num 7) @ ''/'') ''GET''
      (Some (params_only (res_params book_resource)))
     = Rejected (Value ''https://server/book/7/?page=1&lang=en'')"
    by code_simp
  ultimately show ?thesis
    using claim [THEN conjunct1]
      claim [THEN conjunct2, THEN conjunct2, THEN conjunct2, THEN conjunct2, THEN conjunct1]
    by simp
qed

end
